theory Spec2Isabelle
  imports Main "HOL-Library.Word" "HOL-Library.Char_ord" "HOL-Library.List_Lexorder"
begin

section \<open>Contacts backend: authentication lifecycle, cache keys and queries\<close>

text \<open>
  A shallow embedding of the Python services of the contacts backend.  Every
  \<^verbatim>\<open>async\<close> function is read sequentially: one call runs from its first
  statement to its return or raise.  A function that reads or writes the
  database or the key-value store takes the \<open>world\<close> and returns its result
  together with the new world; a raised exception is the \<open>Inl\<close> branch of the
  result.  The clock (\<^verbatim>\<open>datetime.now\<close>, \<^verbatim>\<open>date.today\<close>) and the configuration
  are explicit arguments.
\<close>

subsection \<open>Exceptions\<close>

datatype error =
    JWTError
  | ValueError string
  | HTTPException nat string
  | KeyError string
  | AttributeError
  | MultipleResultsFound
  | OverflowError
  | UnknownHashError
  | JSONDecodeError
  | DBAPIError

unbundle bit_operations_syntax

subsection \<open>Python strings\<close>

text \<open>
  A Python \<^verbatim>\<open>str\<close> is modelled as a \<open>string\<close> whose characters are the code
  points U+0000 to U+00FF.  \<^verbatim>\<open>str.strip()\<close> removes the leading and trailing
  characters for which \<^verbatim>\<open>str.isspace\<close> holds, \<^verbatim>\<open>str.lower()\<close> maps the upper-case
  letters of that range to their lower-case letters.
\<close>

definition isspace :: "char \<Rightarrow> bool" where
  "isspace c =
     (let n = (of_char c :: nat)
      in (9 \<le> n \<and> n \<le> 13) \<or> (28 \<le> n \<and> n \<le> 32) \<or> n = 133 \<or> n = 160)"

definition strip :: "string \<Rightarrow> string" where
  "strip s = rev (dropWhile isspace (rev (dropWhile isspace s)))"

definition lower_char :: "char \<Rightarrow> char" where
  "lower_char c =
     (let n = (of_char c :: nat)
      in if (65 \<le> n \<and> n \<le> 90) \<or> (192 \<le> n \<and> n \<le> 222 \<and> n \<noteq> 215)
         then char_of (n + 32) else c)"

definition lower :: "string \<Rightarrow> string" where
  "lower s = map lower_char s"

subsection \<open>Calendar dates\<close>

record date =
  year :: int
  month :: int
  day :: int

subsection \<open>Tables\<close>

text \<open>
  The rows of \<^verbatim>\<open>contacts\<close> and \<^verbatim>\<open>users\<close> (models.py).  \<open>cid\<close> and \<open>uid\<close> are
  the primary keys \<^verbatim>\<open>Contact.id\<close> and \<^verbatim>\<open>User.id\<close>, \<open>cemail\<close> is
  \<^verbatim>\<open>Contact.email\<close>; the two timestamp columns of a contact play no part in
  any operation below and are left out.
\<close>

record contact =
  cid :: int
  first_name :: string
  last_name :: string
  cemail :: string
  phone :: string
  birthday :: "date option"
  extra_info :: "string option"
  user_id :: int

text \<open>
  \<^verbatim>\<open>Result.scalar_one_or_none()\<close>: no row gives \<^verbatim>\<open>None\<close>, one row gives the
  row, more than one raises.
\<close>

definition scalar_one_or_none :: "'a list \<Rightarrow> error + 'a option" where
  "scalar_one_or_none rs =
     (case rs of
        [] \<Rightarrow> Inr None
      | [r] \<Rightarrow> Inr (Some r)
      | _ \<Rightarrow> Inl MultipleResultsFound)"

subsection \<open>Signed tokens (python-jose)\<close>

text \<open>
  A Python \<^verbatim>\<open>dict\<close> with string keys is an association list in insertion
  order: \<open>map_of d k\<close> is \<^verbatim>\<open>d.get(k)\<close>, and \<open>dict_set\<close> is the assignment
  \<^verbatim>\<open>d[k] = v\<close>, which overwrites in place or appends.
\<close>

datatype jval = JStr string | JInt int

type_synonym claims = "(string \<times> jval) list"

fun dict_set :: "('k \<times> 'v) list \<Rightarrow> 'k \<Rightarrow> 'v \<Rightarrow> ('k \<times> 'v) list" where
  "dict_set [] k v = [(k, v)]"
| "dict_set ((k', v') # d) k v =
     (if k' = k then (k, v) # d else (k', v') # dict_set d k v)"

text \<open>
  The token library is outside the repository.  A compact token
  \<^verbatim>\<open>header.payload.signature\<close> is represented by what it is made of: the
  algorithm named in its header, its payload, and the key its signature was
  computed with; every other string is \<open>Malformed\<close>.  \<open>jwt_decode\<close> is
  \<^verbatim>\<open>jwt.decode(token, key, algorithms=...)\<close> with the library's default
  options at the time \<open>now\<close> (seconds since the epoch): the header's algorithm
  must be allowed, the signature must verify under \<open>key\<close>, \<^verbatim>\<open>iat\<close> must be an
  integer, \<^verbatim>\<open>exp\<close> must be an integer that is not in the past, and \<^verbatim>\<open>sub\<close> must
  be a string.  Every failure is a \<^verbatim>\<open>JWTError\<close> (or a subclass of it).
\<close>

datatype token =
    Signed (token_alg: string) (token_payload: claims) (token_key: string)
  | Malformed string

definition jwt_encode :: "claims \<Rightarrow> string \<Rightarrow> string \<Rightarrow> token" where
  "jwt_encode payload key algorithm = Signed algorithm payload key"

definition iat_ok :: "claims \<Rightarrow> bool" where
  "iat_ok payload =
     (case map_of payload ''iat'' of None \<Rightarrow> True | Some (JInt _) \<Rightarrow> True | Some (JStr _) \<Rightarrow> False)"

definition exp_ok :: "claims \<Rightarrow> int \<Rightarrow> bool" where
  "exp_ok payload now =
     (case map_of payload ''exp'' of
        None \<Rightarrow> True
      | Some (JInt e) \<Rightarrow> now \<le> e
      | Some (JStr _) \<Rightarrow> False)"

definition sub_ok :: "claims \<Rightarrow> bool" where
  "sub_ok payload =
     (case map_of payload ''sub'' of None \<Rightarrow> True | Some (JStr _) \<Rightarrow> True | Some (JInt _) \<Rightarrow> False)"

definition jwt_decode :: "token \<Rightarrow> string \<Rightarrow> string list \<Rightarrow> int \<Rightarrow> error + claims" where
  "jwt_decode tok key algorithms now =
     (case tok of
        Malformed _ \<Rightarrow> Inl JWTError
      | Signed alg payload k \<Rightarrow>
          if alg \<in> set algorithms \<and> k = key \<and> iat_ok payload \<and> exp_ok payload now \<and> sub_ok payload
          then Inr payload
          else Inl JWTError)"

subsection \<open>Configuration (conf/config.py)\<close>

record settings =
  JWT_SECRET :: string
  JWT_ALGORITHM :: string
  JWT_EXPIRATION_SECONDS :: int
  JWT_REFRESH_EXPIRATION_SECONDS :: int
  RESET_TOKEN_EXPIRATION_SECONDS :: int

subsection \<open>Token creation and decoding (auth/auth.py)\<close>

definition RESET_TOKEN_TYPE :: string where "RESET_TOKEN_TYPE = ''password_reset''"
definition ACCESS_TOKEN_TYPE :: string where "ACCESS_TOKEN_TYPE = ''access''"
definition REFRESH_TOKEN_TYPE :: string where "REFRESH_TOKEN_TYPE = ''refresh''"

definition create_token :: "settings \<Rightarrow> int \<Rightarrow> claims \<Rightarrow> int \<Rightarrow> string \<Rightarrow> token" where
  "create_token cfg now data expires_delta token_type =
     (let payload =
        dict_set (dict_set (dict_set data ''iat'' (JInt now))
          ''exp'' (JInt (now + expires_delta))) ''token_type'' (JStr token_type)
      in jwt_encode payload (JWT_SECRET cfg) (JWT_ALGORITHM cfg))"

definition create_access_token :: "settings \<Rightarrow> int \<Rightarrow> claims \<Rightarrow> int option \<Rightarrow> token" where
  "create_access_token cfg now data expires_delta =
     (let exp_td = (case expires_delta of Some d \<Rightarrow> d | None \<Rightarrow> JWT_EXPIRATION_SECONDS cfg)
      in create_token cfg now data exp_td ''access'')"

definition create_refresh_token :: "settings \<Rightarrow> int \<Rightarrow> claims \<Rightarrow> int option \<Rightarrow> token" where
  "create_refresh_token cfg now data expires_delta =
     (let exp_td = (case expires_delta of Some d \<Rightarrow> d | None \<Rightarrow> JWT_REFRESH_EXPIRATION_SECONDS cfg)
      in create_token cfg now data exp_td ''refresh'')"

definition decode_refresh_token :: "settings \<Rightarrow> int \<Rightarrow> token \<Rightarrow> error + claims" where
  "decode_refresh_token cfg now refresh_token =
     jwt_decode refresh_token (JWT_SECRET cfg) [JWT_ALGORITHM cfg] now"

definition create_email_token :: "settings \<Rightarrow> int \<Rightarrow> claims \<Rightarrow> token" where
  "create_email_token cfg now data =
     (let expire = now + 7 * 86400;
          to_encode = dict_set (dict_set data ''iat'' (JInt now)) ''exp'' (JInt expire)
      in jwt_encode to_encode (JWT_SECRET cfg) (JWT_ALGORITHM cfg))"

definition get_email_from_token :: "settings \<Rightarrow> int \<Rightarrow> token \<Rightarrow> error + jval" where
  "get_email_from_token cfg now tok =
     (case jwt_decode tok (JWT_SECRET cfg) [JWT_ALGORITHM cfg] now of
        Inl err \<Rightarrow> (if err = JWTError then Inl (HTTPException 400 ''Invalid token'') else Inl err)
      | Inr payload \<Rightarrow>
          (case map_of payload ''sub'' of
             None \<Rightarrow> Inl (HTTPException 400 ''Invalid token'')
           | Some email \<Rightarrow> Inr email))"

definition create_reset_token :: "settings \<Rightarrow> int \<Rightarrow> claims \<Rightarrow> int \<Rightarrow> token" where
  "create_reset_token cfg now payload expires_seconds =
     (let to_encode =
        dict_set (dict_set (dict_set payload ''iat'' (JInt now))
          ''exp'' (JInt (now + expires_seconds))) ''token_type'' (JStr RESET_TOKEN_TYPE)
      in jwt_encode to_encode (JWT_SECRET cfg) ''HS256'')"

definition decode_reset_token :: "settings \<Rightarrow> int \<Rightarrow> token \<Rightarrow> error + claims" where
  "decode_reset_token cfg now tok =
     (case jwt_decode tok (JWT_SECRET cfg) [''HS256''] now of
        Inl err \<Rightarrow> Inl err
      | Inr data \<Rightarrow>
          if map_of data ''token_type'' \<noteq> Some (JStr RESET_TOKEN_TYPE)
          then Inl JWTError
          else Inr data)"

subsection \<open>Users, the key-value store and the world\<close>

record user =
  uid :: int
  username :: string
  email :: string
  password_hash :: string
  refresh_token :: "token option"
  avatar :: "string option"
  public_id :: "string option"
  confirmed :: bool
  role :: string

text \<open>
  The keys of the key-value store: \<open>Rt t\<close> is \<^verbatim>\<open>f"rt:{t}"\<close> (token_cache.py),
  \<open>Pr t\<close> is \<^verbatim>\<open>f"pr:{t}"\<close> (services/users.py) and \<open>Key k\<close> is a key of the
  contacts cache, which always starts with \<^verbatim>\<open>contacts:\<close>; keys of different
  kinds are different strings.  An entry holds the stored string and the
  lifetime in seconds it was stored with.
\<close>

datatype rkey = Rt token | Pr token | Key string

record entry =
  val :: string
  ex :: int

record world =
  users :: "user list"
  contacts :: "contact list"
  redis :: "rkey \<rightharpoonup> entry"
  outbox :: "(string \<times> token) list"

subsection \<open>UserRepository (repository/users.py)\<close>

definition get_user_by_email :: "string \<Rightarrow> world \<Rightarrow> error + user option" where
  "get_user_by_email e w =
     scalar_one_or_none (filter (\<lambda>u. email u = lower (strip e)) (users w))"

definition get_user_by_refresh_token :: "token \<Rightarrow> world \<Rightarrow> error + user option" where
  "get_user_by_refresh_token t w =
     scalar_one_or_none (filter (\<lambda>u. refresh_token u = Some t) (users w))"

definition set_refresh_token :: "string \<Rightarrow> token option \<Rightarrow> world \<Rightarrow> world" where
  "set_refresh_token user_email t w =
     w\<lparr>users := map (\<lambda>u. if email u = user_email then u\<lparr>refresh_token := t\<rparr> else u) (users w)\<rparr>"

text \<open>
  \<^verbatim>\<open>set_password_hash\<close> commits the update and then reads the returned rows
  with \<^verbatim>\<open>scalar_one_or_none\<close>.
\<close>

definition set_password_hash :: "string \<Rightarrow> string \<Rightarrow> world \<Rightarrow> (error + user option) \<times> world" where
  "set_password_hash e h w =
     (let upd = (\<lambda>u. u\<lparr>password_hash := h, refresh_token := None\<rparr>);
          w' = w\<lparr>users := map (\<lambda>u. if email u = e then upd u else u) (users w)\<rparr>
      in (scalar_one_or_none (map upd (filter (\<lambda>u. email u = e) (users w))), w'))"

subsection \<open>The refresh-token store (cache/token_cache.py)\<close>

definition save_refresh_token :: "settings \<Rightarrow> token \<Rightarrow> string \<Rightarrow> world \<Rightarrow> world" where
  "save_refresh_token cfg t e w =
     w\<lparr>redis := (redis w)(Rt t \<mapsto> \<lparr>val = e, ex = JWT_REFRESH_EXPIRATION_SECONDS cfg\<rparr>)\<rparr>"

definition is_refresh_token_active :: "token \<Rightarrow> world \<Rightarrow> bool" where
  "is_refresh_token_active t w = (redis w (Rt t) \<noteq> None)"

subsection \<open>Password hashing (auth/auth.py, class Hash)\<close>

text \<open>
  \<^verbatim>\<open>CryptContext(schemes=["bcrypt"]).verify\<close> first identifies the scheme of the
  digest by its prefix and raises \<^verbatim>\<open>UnknownHashError\<close> when no scheme matches;
  an identified digest is handed to the scheme's handler, which parses it
  and compares (the argument \<open>handler\<close>; it raises on a digest it cannot
  parse).  \<^verbatim>\<open>Hash.verify_password\<close> calls it and returns what it returns.
\<close>

definition bcrypt_ident_values :: "string list" where
  "bcrypt_ident_values = [''$2$'', ''$2a$'', ''$2x$'', ''$2y$'', ''$2b$'']"

definition bcrypt_identify :: "string \<Rightarrow> bool" where
  "bcrypt_identify h = list_ex (\<lambda>p. take (length p) h = p) bcrypt_ident_values"

definition pwd_context_verify ::
  "(string \<Rightarrow> string \<Rightarrow> error + bool) \<Rightarrow> string \<Rightarrow> string \<Rightarrow> error + bool" where
  "pwd_context_verify handler secret h =
     (if bcrypt_identify h then handler secret h else Inl UnknownHashError)"

definition verify_password ::
  "(string \<Rightarrow> string \<Rightarrow> error + bool) \<Rightarrow> string \<Rightarrow> string \<Rightarrow> error + bool" where
  "verify_password handler plain_password hashed_password =
     pwd_context_verify handler plain_password hashed_password"

subsection \<open>get_current_user (auth/auth.py)\<close>

definition cred_exc :: error where
  "cred_exc = HTTPException 401 ''Could not validate credentials''"

definition get_current_user :: "settings \<Rightarrow> int \<Rightarrow> token \<Rightarrow> world \<Rightarrow> error + user" where
  "get_current_user cfg now tok w =
     (case jwt_decode tok (JWT_SECRET cfg) [JWT_ALGORITHM cfg] now of
        Inl err \<Rightarrow> (if err = JWTError then Inl cred_exc else Inl err)
      | Inr payload \<Rightarrow>
          if map_of payload ''token_type'' \<noteq> Some (JStr ''access'') then Inl cred_exc
          else
            (case map_of payload ''sub'' of
               None \<Rightarrow> Inl cred_exc
             | Some (JInt i) \<Rightarrow> (if i = 0 then Inl cred_exc else Inl AttributeError)
             | Some (JStr subject_email) \<Rightarrow>
                 if subject_email = [] then Inl cred_exc
                 else
                   (case get_user_by_email subject_email w of
                      Inl err \<Rightarrow> Inl err
                    | Inr None \<Rightarrow> Inl cred_exc
                    | Inr (Some u) \<Rightarrow> Inr u)))"

subsection \<open>UserService (services/users.py)\<close>

datatype TokenModel = TokenModel (access_token: token) (returned_refresh_token: token)

definition invalid_refresh :: error where
  "invalid_refresh = ValueError ''Invalid or expired refresh token''"

definition invalid_reset :: error where
  "invalid_reset = HTTPException 400 ''Invalid or expired reset token''"

definition user_not_found :: error where
  "user_not_found = HTTPException 404 ''User not found''"

text \<open>
  \<^verbatim>\<open>refresh_access_token\<close>.  In the branch where the store knows the token the
  subject is read with \<^verbatim>\<open>payload["sub"]\<close>, which raises \<^verbatim>\<open>KeyError\<close> when the
  claim is absent; the other branch reads the claims with \<^verbatim>\<open>payload.get\<close>.
\<close>

definition refresh_access_token ::
  "settings \<Rightarrow> int \<Rightarrow> token \<Rightarrow> world \<Rightarrow> (error + TokenModel) \<times> world" where
  "refresh_access_token cfg now tok w =
     (let mint = (\<lambda>u w'.
            (Inr (TokenModel
                    (create_access_token cfg now [(''sub'', JStr (email u))]
                       (Some (JWT_EXPIRATION_SECONDS cfg)))
                    tok), w'))
      in
      if is_refresh_token_active tok w then
        (case decode_refresh_token cfg now tok of
           Inl err \<Rightarrow> (if err = JWTError then (Inl invalid_refresh, w) else (Inl err, w))
         | Inr payload \<Rightarrow>
             (case map_of payload ''sub'' of
                None \<Rightarrow> (Inl (KeyError ''sub''), w)
              | Some (JInt _) \<Rightarrow> (Inl AttributeError, w)
              | Some (JStr s) \<Rightarrow>
                  (case get_user_by_email s w of
                     Inl err \<Rightarrow> (Inl err, w)
                   | Inr None \<Rightarrow> (Inl invalid_refresh, w)
                   | Inr (Some u) \<Rightarrow> mint u w)))
      else
        (case get_user_by_refresh_token tok w of
           Inl err \<Rightarrow> (Inl err, w)
         | Inr None \<Rightarrow> (Inl invalid_refresh, w)
         | Inr (Some u) \<Rightarrow>
             (case decode_refresh_token cfg now tok of
                Inl err \<Rightarrow> (if err = JWTError then (Inl invalid_refresh, w) else (Inl err, w))
              | Inr payload \<Rightarrow>
                  if map_of payload ''token_type'' \<noteq> Some (JStr ''refresh'')
                     \<or> map_of payload ''sub'' \<noteq> Some (JStr (email u))
                  then (Inl invalid_refresh, w)
                  else mint u (save_refresh_token cfg tok (email u) w))))"

definition logout :: "string \<Rightarrow> world \<Rightarrow> world" where
  "logout user_email w = set_refresh_token user_email None w"

definition login_by_email ::
  "settings \<Rightarrow> int \<Rightarrow> (string \<Rightarrow> string \<Rightarrow> error + bool) \<Rightarrow> string \<Rightarrow> string \<Rightarrow> world
     \<Rightarrow> (error + TokenModel) \<times> world" where
  "login_by_email cfg now handler e password w =
     (let e' = lower (strip e) in
      case get_user_by_email e' w of
        Inl err \<Rightarrow> (Inl err, w)
      | Inr None \<Rightarrow> (Inl (ValueError ''Invalid credentials''), w)
      | Inr (Some u) \<Rightarrow>
          (case verify_password handler password (password_hash u) of
             Inl err \<Rightarrow> (Inl err, w)
           | Inr ok \<Rightarrow>
               if \<not> ok then (Inl (ValueError ''Invalid credentials''), w)
               else if \<not> confirmed u then (Inl (ValueError ''Email not confirmed''), w)
               else
                 (let access = create_access_token cfg now [(''sub'', JStr (email u))]
                                 (Some (JWT_EXPIRATION_SECONDS cfg));
                      refresh = create_refresh_token cfg now [(''sub'', JStr (email u))]
                                 (Some (JWT_REFRESH_EXPIRATION_SECONDS cfg));
                      w1 = set_refresh_token (email u) (Some refresh) w;
                      w2 = save_refresh_token cfg refresh (email u) w1
                  in (Inr (TokenModel access refresh), w2))))"

definition request_password_reset :: "settings \<Rightarrow> int \<Rightarrow> string \<Rightarrow> world \<Rightarrow> (error + unit) \<times> world" where
  "request_password_reset cfg now e w =
     (case get_user_by_email (lower (strip e)) w of
        Inl err \<Rightarrow> (Inl err, w)
      | Inr None \<Rightarrow> (Inr (), w)
      | Inr (Some u) \<Rightarrow>
          (let tok = create_reset_token cfg now [(''sub'', JStr (email u))]
                       (RESET_TOKEN_EXPIRATION_SECONDS cfg);
               w1 = w\<lparr>redis := (redis w)(Pr tok \<mapsto> \<lparr>val = email u, ex = 15 * 60\<rparr>)\<rparr>;
               w2 = w1\<lparr>outbox := outbox w1 @ [(email u, tok)]\<rparr>
           in (Inr (), w2)))"

text \<open>
  \<^verbatim>\<open>reset_password\<close>; \<open>hasher\<close> is \<^verbatim>\<open>Hash.get_password_hash\<close> with the salt drawn
  for this call.  The store is opened with \<^verbatim>\<open>decode_responses=True\<close>, so the
  value read from it is a \<^verbatim>\<open>str\<close> and the \<^verbatim>\<open>bytes\<close> branch is never taken.
\<close>

definition reset_password ::
  "settings \<Rightarrow> int \<Rightarrow> (string \<Rightarrow> string) \<Rightarrow> token \<Rightarrow> string \<Rightarrow> world \<Rightarrow> (error + unit) \<times> world" where
  "reset_password cfg now hasher tok new_password w =
     (case redis w (Pr tok) of
        None \<Rightarrow> (Inl invalid_reset, w)
      | Some en \<Rightarrow>
          if val en = [] then (Inl invalid_reset, w)
          else
            (let e = val en in
             case decode_reset_token cfg now tok of
               Inl err \<Rightarrow> (if err = JWTError then (Inl invalid_reset, w) else (Inl err, w))
             | Inr payload \<Rightarrow>
                 if map_of payload ''token_type'' \<noteq> Some (JStr ''password_reset'')
                    \<or> map_of payload ''sub'' \<noteq> Some (JStr e)
                 then (Inl invalid_reset, w)
                 else
                   (case get_user_by_email e w of
                      Inl err \<Rightarrow> (Inl err, w)
                    | Inr None \<Rightarrow> (Inl user_not_found, w\<lparr>redis := (redis w)(Pr tok := None)\<rparr>)
                    | Inr (Some u) \<Rightarrow>
                        (let new_hash = hasher new_password in
                         case set_password_hash (email u) new_hash w of
                           (Inl err, w1) \<Rightarrow> (Inl err, w1)
                         | (Inr _, w1) \<Rightarrow>
                             (let w2 = set_refresh_token e None w1;
                                  w3 = w2\<lparr>redis := (redis w2)(Pr tok := None)\<rparr>
                              in (Inr (), w3))))))"

subsection \<open>SHA-1 (hashlib)\<close>

text \<open>
  \<^verbatim>\<open>hashlib.sha1(data).hexdigest()\<close> on a byte string, as FIPS 180 defines it:
  the message is padded to a multiple of 64 bytes, every block is expanded
  to eighty 32-bit words and run through eighty rounds, and the five state
  words are printed as forty lower-case hexadecimal digits.
\<close>

definition sha1_pad :: "nat list \<Rightarrow> nat list" where
  "sha1_pad msg =
     (let l = length msg;
          k = (64 - (l + 9) mod 64) mod 64;
          bits = 8 * l
      in msg @ [128] @ replicate k 0
         @ map (\<lambda>i. (bits div 256 ^ (7 - i)) mod 256) [0..<8])"

fun be_words :: "nat list \<Rightarrow> 32 word list" where
  "be_words (b0 # b1 # b2 # b3 # bs) =
     of_nat (((b0 * 256 + b1) * 256 + b2) * 256 + b3) # be_words bs"
| "be_words _ = []"

fun sha1_extend :: "nat \<Rightarrow> 32 word list \<Rightarrow> 32 word list" where
  "sha1_extend 0 ws = ws"
| "sha1_extend (Suc n) ws =
     (let t = length ws
      in sha1_extend n
           (ws @ [word_rotl 1 (ws ! (t - 3) XOR ws ! (t - 8) XOR ws ! (t - 14) XOR ws ! (t - 16))]))"

type_synonym sha1_state = "32 word \<times> 32 word \<times> 32 word \<times> 32 word \<times> 32 word"

definition sha1_round :: "sha1_state \<Rightarrow> nat \<times> 32 word \<Rightarrow> sha1_state" where
  "sha1_round st tw =
     (case st of (a, b, c, d, e) \<Rightarrow>
      case tw of (t, wt) \<Rightarrow>
        (let f = (if t < 20 then (b AND c) OR (NOT b AND d)
                  else if t < 40 then b XOR c XOR d
                  else if t < 60 then (b AND c) OR (b AND d) OR (c AND d)
                  else b XOR c XOR d);
             k = (if t < 20 then 0x5A827999
                  else if t < 40 then 0x6ED9EBA1
                  else if t < 60 then 0x8F1BBCDC
                  else 0xCA62C1D6);
             temp = word_rotl 5 a + f + e + k + wt
         in (temp, a, word_rotl 30 b, c, d)))"

definition sha1_block :: "sha1_state \<Rightarrow> nat list \<Rightarrow> sha1_state" where
  "sha1_block h block =
     (let ws = sha1_extend 64 (be_words block)
      in case foldl sha1_round h (zip [0..<80] ws) of (a, b, c, d, e) \<Rightarrow>
         case h of (h0, h1, h2, h3, h4) \<Rightarrow> (h0 + a, h1 + b, h2 + c, h3 + d, h4 + e))"

fun sha1_blocks :: "nat \<Rightarrow> sha1_state \<Rightarrow> nat list \<Rightarrow> sha1_state" where
  "sha1_blocks 0 h bs = h"
| "sha1_blocks (Suc n) h bs = sha1_blocks n (sha1_block h (take 64 bs)) (drop 64 bs)"

definition sha1_digest :: "nat list \<Rightarrow> sha1_state" where
  "sha1_digest msg =
     (let p = sha1_pad msg
      in sha1_blocks (length p div 64)
           (0x67452301, 0xEFCDAB89, 0x98BADCFE, 0x10325476, 0xC3D2E1F0) p)"

definition hex_digit :: "nat \<Rightarrow> char" where
  "hex_digit n = (if n < 10 then char_of (48 + n) else char_of (87 + n))"

definition hex_word :: "32 word \<Rightarrow> string" where
  "hex_word x = map (\<lambda>i. hex_digit ((unat x div 16 ^ (7 - i)) mod 16)) [0..<8]"

definition sha1_hexdigest :: "nat list \<Rightarrow> string" where
  "sha1_hexdigest msg =
     (case sha1_digest msg of (a, b, c, d, e) \<Rightarrow>
        hex_word a @ hex_word b @ hex_word c @ hex_word d @ hex_word e)"

subsection \<open>Serialisation of the search filters (json, str)\<close>

text \<open>
  \<^verbatim>\<open>str(i)\<close> for an integer, the string escapes of \<^verbatim>\<open>json.dumps\<close> with
  \<^verbatim>\<open>ensure_ascii=False\<close>, and \<^verbatim>\<open>str.encode("utf-8")\<close> on the code points below
  256.
\<close>

fun digits :: "nat \<Rightarrow> string" where
  "digits n = (if n < 10 then [char_of (48 + n)] else digits (n div 10) @ [char_of (48 + n mod 10)])"

declare digits.simps [simp del]

definition str_int :: "int \<Rightarrow> string" where
  "str_int i = (if i < 0 then CHR ''-'' # digits (nat (- i)) else digits (nat i))"

definition json_escape :: "char \<Rightarrow> string" where
  "json_escape c =
     (let n = (of_char c :: nat) in
      if n = 34 then [CHR 0x5C, CHR 0x22]
      else if n = 92 then [CHR 0x5C, CHR 0x5C]
      else if n = 10 then [CHR 0x5C, CHR ''n'']
      else if n = 13 then [CHR 0x5C, CHR ''r'']
      else if n = 9 then [CHR 0x5C, CHR ''t'']
      else if n = 8 then [CHR 0x5C, CHR ''b'']
      else if n = 12 then [CHR 0x5C, CHR ''f'']
      else if n < 32 then [CHR 0x5C, CHR ''u'', CHR ''0'', CHR ''0'', hex_digit (n div 16), hex_digit (n mod 16)]
      else [c])"

definition json_string :: "string \<Rightarrow> string" where
  "json_string s = [CHR 0x22] @ concat (map json_escape s) @ [CHR 0x22]"

definition utf8 :: "string \<Rightarrow> nat list" where
  "utf8 s =
     concat (map (\<lambda>c. let n = (of_char c :: nat)
                       in if n < 128 then [n] else [192 + n div 64, 128 + n mod 64]) s)"

subsection \<open>Cache keys and the contacts cache (cache/contacts_cache.py)\<close>

definition SEARCH_TTL :: int where "SEARCH_TTL = 60"
definition BIRTHDAYS_TTL :: int where "BIRTHDAYS_TTL = 600"

definition norm :: "string option \<Rightarrow> string" where
  "norm s = lower (strip (case s of None \<Rightarrow> [] | Some t \<Rightarrow> t))"

text \<open>
  The argument of the digest: \<^verbatim>\<open>json.dumps\<close> of the dictionary with the keys
  \<^verbatim>\<open>fn\<close>, \<^verbatim>\<open>ln\<close>, \<^verbatim>\<open>em\<close>, \<^verbatim>\<open>s\<close>, \<^verbatim>\<open>l\<close> in this order and the separators
  \<^verbatim>\<open>(",", ":")\<close>.
\<close>

definition search_payload ::
  "string option \<Rightarrow> string option \<Rightarrow> string option \<Rightarrow> int \<Rightarrow> int \<Rightarrow> string" where
  "search_payload fname lname em skip limit =
     [CHR 0x7B] @ json_string ''fn'' @ '':'' @ json_string (norm fname)
     @ '','' @ json_string ''ln'' @ '':'' @ json_string (norm lname)
     @ '','' @ json_string ''em'' @ '':'' @ json_string (norm em)
     @ '','' @ json_string ''s'' @ '':'' @ str_int skip
     @ '','' @ json_string ''l'' @ '':'' @ str_int limit @ [CHR 0x7D]"

definition make_search_key ::
  "int \<Rightarrow> string option \<Rightarrow> string option \<Rightarrow> string option \<Rightarrow> int \<Rightarrow> int \<Rightarrow> string" where
  "make_search_key usr_id fname lname em skip limit =
     (let payload = search_payload fname lname em skip limit;
          digest = sha1_hexdigest (utf8 payload)
      in ''contacts:search:'' @ str_int usr_id @ '':'' @ digest)"

definition make_birthdays_key :: "int \<Rightarrow> int \<Rightarrow> string" where
  "make_birthdays_key usr_id days_ahead =
     ''contacts:birthdays:'' @ str_int usr_id @ '':'' @ str_int days_ahead"

text \<open>
  The \<^verbatim>\<open>json\<close> module and \<^verbatim>\<open>jsonable_encoder\<close> are outside the repository; they
  are the three functions of a \<open>json_lib\<close>.  \<open>json_loads\<close> returns \<open>None\<close> where
  Python's \<^verbatim>\<open>json.loads\<close> returns \<^verbatim>\<open>None\<close> (the document \<^verbatim>\<open>null\<close>).
\<close>

record 'j json_lib =
  jsonable_encoder :: "contact list \<Rightarrow> 'j"
  json_dumps :: "'j \<Rightarrow> string"
  json_loads :: "string \<Rightarrow> error + 'j option"

definition get_search_contacts :: "'j json_lib \<Rightarrow> string \<Rightarrow> world \<Rightarrow> error + 'j option" where
  "get_search_contacts js key w =
     (case redis w (Key key) of
        None \<Rightarrow> Inr None
      | Some en \<Rightarrow> if val en = [] then Inr None else json_loads js (val en))"

definition set_search_contacts :: "'j json_lib \<Rightarrow> string \<Rightarrow> contact list \<Rightarrow> int \<Rightarrow> world \<Rightarrow> world" where
  "set_search_contacts js key cs ttl w =
     (let payload = jsonable_encoder js cs
      in w\<lparr>redis := (redis w)(Key key \<mapsto> \<lparr>val = json_dumps js payload, ex = ttl\<rparr>)\<rparr>)"

definition get_birthdays :: "'j json_lib \<Rightarrow> string \<Rightarrow> world \<Rightarrow> error + 'j option" where
  "get_birthdays js key w =
     (case redis w (Key key) of
        None \<Rightarrow> Inr None
      | Some en \<Rightarrow> if val en = [] then Inr None else json_loads js (val en))"

definition set_birthdays :: "'j json_lib \<Rightarrow> string \<Rightarrow> contact list \<Rightarrow> world \<Rightarrow> world" where
  "set_birthdays js key cs w =
     (let payload = jsonable_encoder js cs
      in w\<lparr>redis := (redis w)(Key key \<mapsto> \<lparr>val = json_dumps js payload, ex = BIRTHDAYS_TTL\<rparr>)\<rparr>)"

subsection \<open>Date arithmetic (datetime)\<close>

text \<open>
  \<^verbatim>\<open>today + timedelta(days=n)\<close> in the proleptic Gregorian calendar, one day at
  a time; a result outside the years 1 to 9999 raises \<^verbatim>\<open>OverflowError\<close>.
  \<open>strftime_md\<close> is \<^verbatim>\<open>strftime("%m%d")\<close>, which is also what the database's
  \<^verbatim>\<open>to_char(birthday, 'MMDD')\<close> prints.
\<close>

definition is_leap :: "int \<Rightarrow> bool" where
  "is_leap y = (y mod 4 = 0 \<and> (y mod 400 = 0 \<or> y mod 100 \<noteq> 0))"

definition days_in_month :: "int \<Rightarrow> int \<Rightarrow> int" where
  "days_in_month y m =
     (if m = 2 then (if is_leap y then 29 else 28)
      else if m = 4 \<or> m = 6 \<or> m = 9 \<or> m = 11 then 30 else 31)"

definition next_day :: "date \<Rightarrow> date" where
  "next_day d =
     (if day d < days_in_month (year d) (month d) then d\<lparr>day := day d + 1\<rparr>
      else if month d < 12 then d\<lparr>month := month d + 1, day := 1\<rparr>
      else \<lparr>year = year d + 1, month = 1, day = 1\<rparr>)"

definition prev_day :: "date \<Rightarrow> date" where
  "prev_day d =
     (if 1 < day d then d\<lparr>day := day d - 1\<rparr>
      else if 1 < month d
        then d\<lparr>month := month d - 1, day := days_in_month (year d) (month d - 1)\<rparr>
      else \<lparr>year = year d - 1, month = 12, day = 31\<rparr>)"

function add_days :: "date \<Rightarrow> int \<Rightarrow> date" where
  "add_days d n =
     (if n = 0 then d
      else if 0 < n then add_days (next_day d) (n - 1)
      else add_days (prev_day d) (n + 1))"
  by pat_completeness auto
termination
  by (relation "measure (\<lambda>(d, n). nat \<bar>n\<bar>)") auto

declare add_days.simps [simp del]

definition date_plus :: "date \<Rightarrow> int \<Rightarrow> error + date" where
  "date_plus d n =
     (let r = add_days d n
      in if 1 \<le> year r \<and> year r \<le> 9999 then Inr r else Inl OverflowError)"

definition two_digits :: "int \<Rightarrow> string" where
  "two_digits n = [char_of (48 + nat n div 10), char_of (48 + nat n mod 10)]"

definition strftime_md :: "date \<Rightarrow> string" where
  "strftime_md d = two_digits (month d) @ two_digits (day d)"

subsection \<open>ContactRepository (repository/contacts.py)\<close>

text \<open>
  The repository the service holds is a record of its methods, so that a
  service function is defined for every repository it may be given.  The
  construction of the record from the functions below is \<open>ContactRepository\<close>.
  \<open>ilike\<close> is the database's \<^verbatim>\<open>ILIKE\<close> on a column and a pattern.  A negative
  \<^verbatim>\<open>OFFSET\<close> or \<^verbatim>\<open>LIMIT\<close> is an error of the database.  \<^verbatim>\<open>ORDER BY\<close> is a stable
  sort by the key; the database leaves the order of rows with equal keys
  open.
\<close>

record contact_repository =
  repo_remove_contact :: "int \<Rightarrow> user \<Rightarrow> world \<Rightarrow> (error + contact option) \<times> world"
  repo_search_contacts ::
    "string option \<Rightarrow> string option \<Rightarrow> string option \<Rightarrow> int \<Rightarrow> int \<Rightarrow> user \<Rightarrow> world
       \<Rightarrow> (error + contact list) \<times> world"
  repo_upcoming_birthdays :: "int \<Rightarrow> user \<Rightarrow> world \<Rightarrow> (error + contact list) \<times> world"

text \<open>
  \<^verbatim>\<open>Contact.id\<close> is an \<^verbatim>\<open>Integer\<close> column, 32 bits wide, and \<^verbatim>\<open>OFFSET\<close> and \<^verbatim>\<open>LIMIT\<close>
  are 32-bit integers too.  The contact id, \<^verbatim>\<open>skip\<close> and \<^verbatim>\<open>limit\<close> come from the
  request and are sent to the database as 32-bit integers; for a value
  outside that range the statement is not executed and the call raises
  \<^verbatim>\<open>DBAPIError\<close>.  The user is the authenticated one, a row of \<^verbatim>\<open>users\<close>.
\<close>

definition in_int4 :: "int \<Rightarrow> bool" where
  "in_int4 i = (- 2147483648 \<le> i \<and> i \<le> 2147483647)"

definition get_contact_by_id :: "int \<Rightarrow> user \<Rightarrow> world \<Rightarrow> error + contact option" where
  "get_contact_by_id contact_id usr w =
     (if in_int4 contact_id
      then scalar_one_or_none
             (filter (\<lambda>c. cid c = contact_id \<and> user_id c = uid usr) (contacts w))
      else Inl DBAPIError)"

definition ContactRepository_remove_contact ::
  "int \<Rightarrow> user \<Rightarrow> world \<Rightarrow> (error + contact option) \<times> world" where
  "ContactRepository_remove_contact contact_id usr w =
     (case get_contact_by_id contact_id usr w of
        Inl err \<Rightarrow> (Inl err, w)
      | Inr None \<Rightarrow> (Inr None, w)
      | Inr (Some c) \<Rightarrow> (Inr (Some c), w\<lparr>contacts := filter (\<lambda>r. cid r \<noteq> cid c) (contacts w)\<rparr>))"

definition truthy :: "string option \<Rightarrow> bool" where
  "truthy s = (case s of None \<Rightarrow> False | Some t \<Rightarrow> t \<noteq> [])"

definition ContactRepository_search_contacts ::
  "(string \<Rightarrow> string \<Rightarrow> bool) \<Rightarrow> string option \<Rightarrow> string option \<Rightarrow> string option \<Rightarrow> int \<Rightarrow> int \<Rightarrow> user
     \<Rightarrow> world \<Rightarrow> (error + contact list) \<times> world" where
  "ContactRepository_search_contacts ilike fname lname em skip limit usr w =
     (let pat = (\<lambda>s. ''%'' @ strip (the s) @ ''%'');
          rows = filter (\<lambda>c. user_id c = uid usr) (contacts w);
          rows1 = (if truthy fname then filter (\<lambda>c. ilike (first_name c) (pat fname)) rows else rows);
          rows2 = (if truthy lname then filter (\<lambda>c. ilike (last_name c) (pat lname)) rows1 else rows1);
          rows3 = (if truthy em then filter (\<lambda>c. ilike (cemail c) (pat em)) rows2 else rows2)
      in if skip < 0 \<or> limit < 0 \<or> \<not> in_int4 skip \<or> \<not> in_int4 limit then (Inl DBAPIError, w)
         else (Inr (take (nat limit) (drop (nat skip) rows3)), w))"

definition ContactRepository_upcoming_birthdays ::
  "date \<Rightarrow> int \<Rightarrow> user \<Rightarrow> world \<Rightarrow> (error + contact list) \<times> world" where
  "ContactRepository_upcoming_birthdays today days usr w =
     (case date_plus today days of
        Inl err \<Rightarrow> (Inl err, w)
      | Inr end_date \<Rightarrow>
          (let start_key = strftime_md today;
               end_key = strftime_md end_date;
               key = (\<lambda>c. strftime_md (the (birthday c)));
               rows = filter (\<lambda>c. user_id c = uid usr \<and> birthday c \<noteq> None) (contacts w);
               rows1 = (if start_key \<le> end_key
                        then filter (\<lambda>c. start_key \<le> key c \<and> key c \<le> end_key) rows
                        else filter (\<lambda>c. start_key \<le> key c \<or> key c \<le> end_key) rows)
           in (Inr (sort_key key rows1), w)))"

definition ContactRepository :: "(string \<Rightarrow> string \<Rightarrow> bool) \<Rightarrow> date \<Rightarrow> contact_repository" where
  "ContactRepository ilike today =
     \<lparr>repo_remove_contact = ContactRepository_remove_contact,
      repo_search_contacts = ContactRepository_search_contacts ilike,
      repo_upcoming_birthdays = ContactRepository_upcoming_birthdays today\<rparr>"

subsection \<open>ContactService (services/contacts.py)\<close>

text \<open>
  A cached answer is the deserialised document, a fresh one the rows the
  repository returned.
\<close>

datatype 'j answer = Cached 'j | Rows "contact list"

definition ContactService_remove_contact ::
  "contact_repository \<Rightarrow> int \<Rightarrow> user \<Rightarrow> world \<Rightarrow> (error + bool) \<times> world" where
  "ContactService_remove_contact repo contact_id usr w =
     (case repo_remove_contact repo contact_id usr w of
        (Inl err, w') \<Rightarrow> (Inl err, w')
      | (Inr _, w') \<Rightarrow> (Inr True, w'))"

definition ContactService_search_contacts ::
  "'j json_lib \<Rightarrow> contact_repository \<Rightarrow> string option \<Rightarrow> string option \<Rightarrow> string option \<Rightarrow> int \<Rightarrow> int
     \<Rightarrow> user \<Rightarrow> world \<Rightarrow> (error + 'j answer) \<times> world" where
  "ContactService_search_contacts js repo fname lname em skip limit usr w =
     (let key = make_search_key (uid usr) fname lname em skip limit in
      case get_search_contacts js key w of
        Inl err \<Rightarrow> (Inl err, w)
      | Inr (Some cached) \<Rightarrow> (Inr (Cached cached), w)
      | Inr None \<Rightarrow>
          (case repo_search_contacts repo fname lname em skip limit usr w of
             (Inl err, w1) \<Rightarrow> (Inl err, w1)
           | (Inr result, w1) \<Rightarrow>
               (Inr (Rows result), set_search_contacts js key result SEARCH_TTL w1)))"

definition ContactService_upcoming_birthdays ::
  "'j json_lib \<Rightarrow> contact_repository \<Rightarrow> int \<Rightarrow> user \<Rightarrow> world \<Rightarrow> (error + 'j answer) \<times> world" where
  "ContactService_upcoming_birthdays js repo days_ahead usr w =
     (let key = make_birthdays_key (uid usr) days_ahead in
      case get_birthdays js key w of
        Inl err \<Rightarrow> (Inl err, w)
      | Inr (Some cached) \<Rightarrow> (Inr (Cached cached), w)
      | Inr None \<Rightarrow>
          (case repo_upcoming_birthdays repo days_ahead usr w of
             (Inl err, w1) \<Rightarrow> (Inl err, w1)
           | (Inr result, w1) \<Rightarrow> (Inr (Rows result), set_birthdays js key result w1)))"

subsection \<open>Equivalent search filters\<close>



subsection \<open>Runs of the service\<close>

text \<open>
  One step of the service, taken at the time \<open>now\<close> under the configuration
  \<open>cfg\<close>, is one of the changes the program makes to the users table, the
  contacts table and the key-value store:
  \<^item> \<open>signup\<close>: \<^verbatim>\<open>UserRepository.create_user\<close> adds a row whose address is
    \<^verbatim>\<open>email.strip().lower()\<close>; the address column is unique, the refresh token
    is null, \<^verbatim>\<open>confirmed\<close> is false and the role is \<^verbatim>\<open>user\<close>;
  \<^item> \<open>profile\<close>: \<^verbatim>\<open>set_avatar\<close>, \<^verbatim>\<open>confirmed_email\<close> and \<^verbatim>\<open>set_role\<close> write the avatar,
    the public id, the confirmation flag and the role of the row with a
    given id;
  \<^item> \<open>login\<close>, \<open>rotate\<close>, \<open>logout\<close>, \<open>request\<close>, \<open>reset\<close>: the five functions of
    \<^verbatim>\<open>UserService\<close> above, with any arguments, whatever they return;
  \<^item> \<open>contacts\<close>: the contacts table changes (\<^verbatim>\<open>ContactRepository\<close>);
  \<^item> \<open>cache\<close>: the contacts cache stores a document under one of its keys;
  \<^item> \<open>expire\<close>: an entry of the store reaches the end of its lifetime and
    is gone.

  No other statement of the program writes a user row or a key of the store.
  A world is reachable when a sequence of steps leads to it from the world
  with empty tables and an empty store.
\<close>

inductive step :: "settings \<Rightarrow> int \<Rightarrow> world \<Rightarrow> world \<Rightarrow> bool" for cfg :: settings where
  signup:
    "\<not> list_ex (\<lambda>u. email u = lower (strip e)) (users w) \<Longrightarrow>
     step cfg now w
       (w\<lparr>users := users w @
            [\<lparr>uid = i, username = n, email = lower (strip e), password_hash = h,
              refresh_token = None, avatar = None, public_id = None, confirmed = False,
              role = ''user''\<rparr>]\<rparr>)"
| profile:
    "step cfg now w
       (w\<lparr>users := map (\<lambda>u. if uid u = i
                               then u\<lparr>avatar := a u, public_id := p u, confirmed := c u, role := r u\<rparr>
                               else u) (users w)\<rparr>)"
| login: "step cfg now w (snd (login_by_email cfg now handler e pw w))"
| rotate: "step cfg now w (snd (refresh_access_token cfg now tok w))"
| logout: "step cfg now w (logout e w)"
| request: "step cfg now w (snd (request_password_reset cfg now e w))"
| reset: "step cfg now w (snd (reset_password cfg now hasher tok pw w))"
| contacts: "step cfg now w (w\<lparr>contacts := cs\<rparr>)"
| cache: "step cfg now w (w\<lparr>redis := (redis w)(Key k \<mapsto> en)\<rparr>)"
| expire: "step cfg now w (w\<lparr>redis := (redis w)(k := None)\<rparr>)"



text \<open>
  The time a token says it was issued at, its claim \<^verbatim>\<open>iat\<close>.  \<open>run_after cfg tok\<close>
  relates a world to the worlds the service reaches from it by steps none of
  which is taken in the second \<open>tok\<close> was issued in.
\<close>

definition issued_at :: "token \<Rightarrow> int option" where
  "issued_at t =
     (case t of
        Signed alg p k \<Rightarrow> (case map_of p ''iat'' of Some (JInt n) \<Rightarrow> Some n | _ \<Rightarrow> None)
      | Malformed _ \<Rightarrow> None)"

inductive run_after :: "settings \<Rightarrow> token \<Rightarrow> world \<Rightarrow> world \<Rightarrow> bool"
  for cfg :: settings and tok :: token where
  here: "run_after cfg tok w w"
| further: "run_after cfg tok w w1 \<Longrightarrow> step cfg now w1 w2 \<Longrightarrow> issued_at tok \<noteq> Some now \<Longrightarrow>
            run_after cfg tok w w2"



section \<open>Example data\<close>

definition example_settings :: settings where
  "example_settings =
     \<lparr>JWT_SECRET = ''testsecret'', JWT_ALGORITHM = ''HS256'', JWT_EXPIRATION_SECONDS = 3600,
      JWT_REFRESH_EXPIRATION_SECONDS = 86400, RESET_TOKEN_EXPIRATION_SECONDS = 900\<rparr>"

definition alice :: user where
  "alice =
     \<lparr>uid = 1, username = ''alice'', email = ''alice@example.com'',
      password_hash = ''$2b$12$old'', refresh_token = None, avatar = None, public_id = None,
      confirmed = True, role = ''user''\<rparr>"

definition alice_sub :: claims where
  "alice_sub = [(''sub'', JStr ''alice@example.com'')]"

definition alice_access :: token where
  "alice_access = create_access_token example_settings 1000 alice_sub None"

definition alice_refresh :: token where
  "alice_refresh = create_refresh_token example_settings 1000 alice_sub None"

definition alice_reset :: token where
  "alice_reset = create_reset_token example_settings 1500 alice_sub 900"

definition ghost_reset :: token where
  "ghost_reset = create_reset_token example_settings 1500 [(''sub'', JStr ''ghost@example.com'')] 900"

text \<open>The store knows an access token under a refresh-token key.\<close>

definition store_with_access :: world where
  "store_with_access =
     \<lparr>users = [alice], contacts = [],
      redis = [Rt alice_access \<mapsto> \<lparr>val = ''alice@example.com'', ex = 86400\<rparr>],
      outbox = []\<rparr>"

text \<open>
  Alice has logged in at time 1000 and asked for a password reset at time
  1500: her row and the store hold the refresh token, the store holds the
  reset token.
\<close>

definition session_world :: world where
  "session_world =
     \<lparr>users = [alice\<lparr>refresh_token := Some alice_refresh\<rparr>], contacts = [],
      redis = [Rt alice_refresh \<mapsto> \<lparr>val = ''alice@example.com'', ex = 86400\<rparr>,
               Pr alice_reset \<mapsto> \<lparr>val = ''alice@example.com'', ex = 900\<rparr>],
      outbox = [(''alice@example.com'', alice_reset)]\<rparr>"

text \<open>The store holds a reset token for an address no user has.\<close>

definition ghost_world :: world where
  "ghost_world =
     \<lparr>users = [alice], contacts = [],
      redis = [Pr ghost_reset \<mapsto> \<lparr>val = ''ghost@example.com'', ex = 900\<rparr>],
      outbox = []\<rparr>"

definition example_hasher :: "string \<Rightarrow> string" where
  "example_hasher p = ''$2b$12$new''"

definition example_handler :: "string \<Rightarrow> string \<Rightarrow> error + bool" where
  "example_handler secret h = Inr (secret = ''s3cret'' \<and> h = ''$2b$12$old'')"

definition bob :: contact where
  "bob =
     \<lparr>cid = 7, first_name = ''Bob'', last_name = ''Builder'', cemail = ''bob@example.com'',
      phone = ''+10001'', birthday = Some \<lparr>year = 1990, month = 7, day = 15\<rparr>,
      extra_info = None, user_id = 1\<rparr>"

definition carol :: contact where
  "carol =
     \<lparr>cid = 8, first_name = ''Carol'', last_name = ''Clark'', cemail = ''carol@example.com'',
      phone = ''+10002'', birthday = Some \<lparr>year = 1985, month = 6, day = 1\<rparr>,
      extra_info = None, user_id = 2\<rparr>"

definition contacts_world :: world where
  "contacts_world = \<lparr>users = [alice], contacts = [bob, carol], redis = Map.empty, outbox = []\<rparr>"

definition june_first :: date where
  "june_first = \<lparr>year = 2025, month = 6, day = 1\<rparr>"

definition example_ilike :: "string \<Rightarrow> string \<Rightarrow> bool" where
  "example_ilike col pat = (lower pat = ''%'' @ lower col @ ''%'')"

text \<open>A \<open>json_lib\<close> whose documents are their own text.\<close>

definition example_json :: "string json_lib" where
  "example_json =
     \<lparr>jsonable_encoder = (\<lambda>cs. concat (map (\<lambda>c. first_name c @ '';'') cs)),
      json_dumps = (\<lambda>d. d),
      json_loads = (\<lambda>s. if s = ''null'' then Inr None else Inr (Some s))\<rparr>"

text \<open>Worlds whose store already holds an answer for Alice's request.\<close>

definition search_hit_world :: world where
  "search_hit_world =
     contacts_world\<lparr>redis :=
       [Key (make_search_key 1 (Some ''bob'') None None 0 10) \<mapsto> \<lparr>val = ''Stale;'', ex = 60\<rparr>]\<rparr>"

definition birthdays_hit_world :: world where
  "birthdays_hit_world =
     contacts_world\<lparr>redis := [Key (make_birthdays_key 1 60) \<mapsto> \<lparr>val = ''Old;'', ex = 600\<rparr>]\<rparr>"

section \<open>Properties\<close>

subsection \<open>Auxiliary facts\<close>

lemma scalar_one_or_none_Some: "scalar_one_or_none rs = Inr (Some r) \<Longrightarrow> rs = [r]"
  by (auto simp: scalar_one_or_none_def split: list.splits)

lemma scalar_one_or_none_single: "scalar_one_or_none [r] = Inr (Some r)"
  by (simp add: scalar_one_or_none_def)

lemma get_user_by_email_Some:
  assumes "get_user_by_email e w = Inr (Some u)"
  shows "filter (\<lambda>x. email x = email u) (users w) = [u]"
proof -
  have f: "filter (\<lambda>x. email x = lower (strip e)) (users w) = [u]"
    using assms by (simp add: get_user_by_email_def scalar_one_or_none_Some)
  then have "u \<in> set (filter (\<lambda>x. email x = lower (strip e)) (users w))" by simp
  then have "email u = lower (strip e)" by simp
  with f show ?thesis by simp
qed

lemma set_password_hash_after_lookup:
  assumes "get_user_by_email e w = Inr (Some u)"
  shows "fst (set_password_hash (email u) h w)
           = Inr (Some (u\<lparr>password_hash := h, refresh_token := None\<rparr>))"
  using get_user_by_email_Some [OF assms]
  by (simp add: set_password_hash_def Let_def scalar_one_or_none_single)

lemma jwt_decode_error: "jwt_decode tok key algs now = Inl err \<Longrightarrow> err = JWTError"
  by (auto simp: jwt_decode_def split: token.splits if_splits)

lemma decode_reset_token_error: "decode_reset_token cfg now tok = Inl err \<Longrightarrow> err = JWTError"
  by (auto simp: decode_reset_token_def split: sum.splits if_splits dest: jwt_decode_error)

lemma alice_access_eq:
  "alice_access =
     Signed ''HS256'' [(''sub'', JStr ''alice@example.com''), (''iat'', JInt 1000),
       (''exp'', JInt 4600), (''token_type'', JStr ''access'')] ''testsecret''"
  by (simp add: alice_access_def alice_sub_def create_access_token_def create_token_def
      jwt_encode_def example_settings_def)


lemma alice_reset_eq:
  "alice_reset =
     Signed ''HS256'' [(''sub'', JStr ''alice@example.com''), (''iat'', JInt 1500),
       (''exp'', JInt 2400), (''token_type'', JStr ''password_reset'')] ''testsecret''"
  by (simp add: alice_reset_def alice_sub_def create_reset_token_def jwt_encode_def
      example_settings_def RESET_TOKEN_TYPE_def)

lemma ghost_reset_eq:
  "ghost_reset =
     Signed ''HS256'' [(''sub'', JStr ''ghost@example.com''), (''iat'', JInt 1500),
       (''exp'', JInt 2400), (''token_type'', JStr ''password_reset'')] ''testsecret''"
  by (simp add: ghost_reset_def create_reset_token_def jwt_encode_def
      example_settings_def RESET_TOKEN_TYPE_def)

lemma norm_alice: "lower (strip ''alice@example.com'') = ''alice@example.com''"
  by code_simp

lemma norm_ghost: "lower (strip ''ghost@example.com'') = ''ghost@example.com''"
  by code_simp

lemma decode_alice_reset:
  "decode_reset_token example_settings 1600 alice_reset =
     Inr [(''sub'', JStr ''alice@example.com''), (''iat'', JInt 1500), (''exp'', JInt 2400),
          (''token_type'', JStr ''password_reset'')]"
  by (simp add: alice_reset_eq decode_reset_token_def jwt_decode_def iat_ok_def exp_ok_def
      sub_ok_def example_settings_def RESET_TOKEN_TYPE_def)

lemma decode_ghost_reset:
  "decode_reset_token example_settings 1600 ghost_reset =
     Inr [(''sub'', JStr ''ghost@example.com''), (''iat'', JInt 1500), (''exp'', JInt 2400),
          (''token_type'', JStr ''password_reset'')]"
  by (simp add: ghost_reset_eq decode_reset_token_def jwt_decode_def iat_ok_def exp_ok_def
      sub_ok_def example_settings_def RESET_TOKEN_TYPE_def)

lemma filter_key_at_most_one:
  "distinct (map f xs) \<Longrightarrow>
     filter (\<lambda>c. f c = k \<and> P c) xs = [] \<or> (\<exists>c. filter (\<lambda>c. f c = k \<and> P c) xs = [c])"
proof (induction xs)
  case Nil
  then show ?case by simp
next
  case (Cons x xs)
  show ?case
  proof (cases "f x = k \<and> P x")
    case True
    have "f x \<notin> f ` set xs" using Cons.prems by simp
    then have "f c \<noteq> f x" if "c \<in> set xs" for c using that by (metis imageI)
    with True have "filter (\<lambda>c. f c = k \<and> P c) xs = []"
      by (auto simp: filter_empty_conv)
    with True show ?thesis by simp
  next
    case False
    with Cons show ?thesis by auto
  qed
qed








lemma get_user_by_email_mem:
  "get_user_by_email e w = Inr (Some u) \<Longrightarrow> u \<in> set (users w) \<and> email u = lower (strip e)"
proof -
  assume "get_user_by_email e w = Inr (Some u)"
  then have "filter (\<lambda>x. email x = lower (strip e)) (users w) = [u]"
    by (simp add: get_user_by_email_def scalar_one_or_none_Some)
  then have "u \<in> set (filter (\<lambda>x. email x = lower (strip e)) (users w))" by simp
  then show ?thesis by simp
qed


lemma reset_password_success:
  assumes "reset_password cfg now hasher tok pw w = (Inr (), w')"
  shows "\<exists>en u. redis w (Pr tok) = Some en \<and> get_user_by_email (val en) w = Inr (Some u)
           \<and> w' = (set_refresh_token (val en) None
                     (snd (set_password_hash (email u) (hasher pw) w)))
                   \<lparr>redis := (redis w)(Pr tok := None)\<rparr>"
proof (cases "redis w (Pr tok)")
  case None
  then show ?thesis using assms by (simp add: reset_password_def)
next
  case (Some en)
  show ?thesis
  proof (cases "get_user_by_email (val en) w")
    case (Inl e)
    then show ?thesis using assms Some
      by (simp add: reset_password_def Let_def split: if_splits sum.splits)
  next
    case (Inr r)
    show ?thesis
    proof (cases r)
      case None
      then show ?thesis using assms Some Inr
        by (simp add: reset_password_def Let_def split: if_splits sum.splits)
    next
      case Su: (Some u)
      obtain r1 w1 where sp: "set_password_hash (email u) (hasher pw) w = (r1, w1)"
        by (cases "set_password_hash (email u) (hasher pw) w")
      have w1: "redis w1 = redis w"
        using sp by (auto simp: set_password_hash_def Let_def)
      show ?thesis using assms Some Inr Su sp w1
        by (simp add: reset_password_def Let_def set_refresh_token_def
            split: if_splits sum.splits)
    qed
  qed
qed


subsection \<open>Token types at decoding\<close>

text \<open>
  C1.  Decoding with an expected token type should fail on a token of another
  type.  \<^verbatim>\<open>decode_refresh_token\<close> does not look at the type: the access token
  issued to Alice, with a valid signature and unexpired, is decoded by it
  (and by \<^verbatim>\<open>get_email_from_token\<close>), whereas \<^verbatim>\<open>decode_reset_token\<close>, which checks
  the type, rejects the same token.
\<close>

theorem decode_refresh_token_accepts_access_token:
  "decode_refresh_token example_settings 2000 alice_access =
     Inr [(''sub'', JStr ''alice@example.com''), (''iat'', JInt 1000), (''exp'', JInt 4600),
          (''token_type'', JStr ''access'')]
   \<and> get_email_from_token example_settings 2000 alice_access = Inr (JStr ''alice@example.com'')
   \<and> decode_reset_token example_settings 2000 alice_access = Inl JWTError"
  by (simp add: alice_access_eq decode_refresh_token_def decode_reset_token_def
      get_email_from_token_def jwt_decode_def iat_ok_def exp_ok_def sub_ok_def
      example_settings_def RESET_TOKEN_TYPE_def)

subsection \<open>Reachable worlds\<close>







lemma request_password_reset_effect:
  "snd (request_password_reset cfg now e w) = w
   \<or> (\<exists>u\<in>set (users w).
        snd (request_password_reset cfg now e w) =
          w\<lparr>redis := (redis w)(Pr (create_reset_token cfg now [(''sub'', JStr (email u))]
                                    (RESET_TOKEN_EXPIRATION_SECONDS cfg))
                         \<mapsto> \<lparr>val = email u, ex = 15 * 60\<rparr>),
             outbox := outbox w @ [(email u, create_reset_token cfg now [(''sub'', JStr (email u))]
                                    (RESET_TOKEN_EXPIRATION_SECONDS cfg))]\<rparr>)"
proof (cases "get_user_by_email (lower (strip e)) w")
  case (Inl a) then show ?thesis by (simp add: request_password_reset_def)
next
  case (Inr r)
  show ?thesis
  proof (cases r)
    case None with Inr show ?thesis by (simp add: request_password_reset_def)
  next
    case (Some u)
    with Inr get_user_by_email_mem [of "lower (strip e)" w u] have "u \<in> set (users w)" by simp
    with Inr Some show ?thesis
      by (auto simp: request_password_reset_def Let_def intro!: bexI [of _ u])
  qed
qed



lemma reset_password_effect:
  "snd (reset_password cfg now hasher tok pw w) = w
   \<or> snd (reset_password cfg now hasher tok pw w) = w\<lparr>redis := (redis w)(Pr tok := None)\<rparr>
   \<or> (\<exists>en u. redis w (Pr tok) = Some en \<and> get_user_by_email (val en) w = Inr (Some u)
         \<and> snd (reset_password cfg now hasher tok pw w)
             = (set_refresh_token (val en) None
                  (snd (set_password_hash (email u) (hasher pw) w)))
               \<lparr>redis := (redis w)(Pr tok := None)\<rparr>)"
proof (cases "reset_password cfg now hasher tok pw w")
  case (Pair res w')
  show ?thesis
  proof (cases res)
    case (Inr x)
    with Pair have "reset_password cfg now hasher tok pw w = (Inr (), w')" by simp
    from reset_password_success [OF this] Pair show ?thesis by auto
  next
    case (Inl err)
    with Pair have f: "reset_password cfg now hasher tok pw w = (Inl err, w')" by simp
    have "users w' = users w \<and> contacts w' = contacts w \<and> outbox w' = outbox w
         \<and> (redis w' = (redis w)(Pr tok := None) \<or> redis w' = redis w)"
    proof (cases "redis w (Pr tok)")
      case None
      then show ?thesis using f by (auto simp: reset_password_def invalid_reset_def)
    next
      case (Some en)
      show ?thesis
      proof (cases "get_user_by_email (val en) w")
        case (Inl e)
        then show ?thesis using f Some
          by (auto simp: reset_password_def invalid_reset_def Let_def
              split: if_splits sum.splits)
      next
        case (Inr r)
        show ?thesis
        proof (cases r)
          case None
          then show ?thesis using f Some Inr
            by (auto simp: reset_password_def invalid_reset_def user_not_found_def Let_def
                split: if_splits sum.splits)
        next
          case Su: (Some u)
          obtain r1 w1 where sp: "set_password_hash (email u) (hasher pw) w = (r1, w1)"
            by (cases "set_password_hash (email u) (hasher pw) w")
          have "r1 = Inr (Some (u\<lparr>password_hash := hasher pw, refresh_token := None\<rparr>))"
            using set_password_hash_after_lookup [of "val en" w u "hasher pw"] Inr Su sp by simp
          then show ?thesis using f Some Inr Su sp
            by (auto simp: reset_password_def invalid_reset_def Let_def split: if_splits sum.splits)
        qed
      qed
    qed
    then have "w' = w \<or> w' = w\<lparr>redis := (redis w)(Pr tok := None)\<rparr>" by auto
    with Pair show ?thesis by auto
  qed
qed









subsection \<open>Refresh-token rotation\<close>










subsection \<open>Password reset\<close>

lemma ghost_reset_result:
  "reset_password example_settings 1600 example_hasher ghost_reset ''n3w'' ghost_world
     = (Inl (HTTPException 404 ''User not found''),
        ghost_world\<lparr>redis := (redis ghost_world)(Pr ghost_reset := None)\<rparr>)"
  by (simp add: reset_password_def ghost_world_def decode_ghost_reset get_user_by_email_def
      norm_ghost scalar_one_or_none_def alice_def user_not_found_def)

text \<open>
  C3 as stated does not hold: when the store knows the reset token and
  the token is valid but no user has the address, the call fails with
  "User not found" and the reset token's entry is gone from the store.
\<close>

theorem reset_password_user_not_found_deletes_entry:
  "fst (reset_password example_settings 1600 example_hasher ghost_reset ''n3w'' ghost_world)
     = Inl (HTTPException 404 ''User not found'')
   \<and> redis ghost_world (Pr ghost_reset) = Some \<lparr>val = ''ghost@example.com'', ex = 900\<rparr>
   \<and> redis (snd (reset_password example_settings 1600 example_hasher ghost_reset ''n3w'' ghost_world))
        (Pr ghost_reset) = None"
  by (simp add: ghost_reset_result) (simp add: ghost_world_def)

text \<open>
  C3, amended.  A reset confirmation that fails leaves every user row, and so
  every password hash and every stored refresh token, as it was.  It leaves
  the store as it was too, except when it fails with "User not found": then
  the reset token's entry, and nothing else, has been deleted.
\<close>

theorem reset_password_failure_frame:
  assumes "reset_password cfg now hasher tok pw w = (Inl err, w')"
  shows "users w' = users w \<and> contacts w' = contacts w \<and> outbox w' = outbox w
         \<and> (if err = HTTPException 404 ''User not found''
              then redis w' = (redis w)(Pr tok := None)
              else redis w' = redis w)"
proof (cases "redis w (Pr tok)")
  case None
  then show ?thesis using assms by (auto simp: reset_password_def invalid_reset_def)
next
  case (Some en)
  show ?thesis
  proof (cases "get_user_by_email (val en) w")
    case (Inl e)
    then show ?thesis using assms Some
      by (auto simp: reset_password_def invalid_reset_def Let_def scalar_one_or_none_def
          get_user_by_email_def split: if_splits sum.splits list.splits
          dest: decode_reset_token_error)
  next
    case (Inr r)
    show ?thesis
    proof (cases r)
      case None
      then show ?thesis using assms Some Inr
        by (auto simp: reset_password_def invalid_reset_def user_not_found_def Let_def
            split: if_splits sum.splits dest: decode_reset_token_error)
    next
      case (Some u)
      obtain r1 w1 where sp: "set_password_hash (email u) (hasher pw) w = (r1, w1)"
        by (cases "set_password_hash (email u) (hasher pw) w")
      have "r1 = Inr (Some (u\<lparr>password_hash := hasher pw, refresh_token := None\<rparr>))"
        using set_password_hash_after_lookup [of "val en" w u "hasher pw"] Inr Some sp by simp
      then show ?thesis using assms \<open>redis w (Pr tok) = Some en\<close> Inr Some sp
        by (auto simp: reset_password_def invalid_reset_def Let_def split: if_splits sum.splits
            dest: decode_reset_token_error)
    qed
  qed
qed

theorem reset_password_failure_frame_witness:
  "reset_password example_settings 1600 example_hasher alice_access ''n3w''
       (store_with_access\<lparr>redis := [Pr alice_access \<mapsto> \<lparr>val = ''alice@example.com'', ex = 900\<rparr>]\<rparr>)
     = (Inl (HTTPException 400 ''Invalid or expired reset token''),
        store_with_access\<lparr>redis := [Pr alice_access \<mapsto> \<lparr>val = ''alice@example.com'', ex = 900\<rparr>]\<rparr>)
   \<and> users (store_with_access\<lparr>redis := [Pr alice_access \<mapsto> \<lparr>val = ''alice@example.com'', ex = 900\<rparr>]\<rparr>)
       = [alice]
   \<and> fst (reset_password example_settings 1600 example_hasher ghost_reset ''n3w'' ghost_world)
       = Inl (HTTPException 404 ''User not found'')
   \<and> users (snd (reset_password example_settings 1600 example_hasher ghost_reset ''n3w'' ghost_world))
       = [alice]
   \<and> redis (snd (reset_password example_settings 1600 example_hasher ghost_reset ''n3w'' ghost_world))
       = Map.empty"
proof -
  let ?w = "store_with_access\<lparr>redis := [Pr alice_access \<mapsto> \<lparr>val = ''alice@example.com'', ex = 900\<rparr>]\<rparr>"
  obtain err w' where
    r: "reset_password example_settings 1600 example_hasher alice_access ''n3w'' ?w = (Inl err, w')"
    and e: "err = HTTPException 400 ''Invalid or expired reset token''"
    by (simp add: reset_password_def decode_reset_token_def jwt_decode_def alice_access_eq
        iat_ok_def exp_ok_def sub_ok_def example_settings_def RESET_TOKEN_TYPE_def
        invalid_reset_def store_with_access_def)
  from reset_password_failure_frame [OF r] e
  have "users w' = users ?w" and "contacts w' = contacts ?w" and "outbox w' = outbox ?w"
    and "redis w' = redis ?w"
    by simp_all
  then have "w' = ?w" by simp
  moreover
  from reset_password_failure_frame [OF ghost_reset_result]
  have "users (ghost_world\<lparr>redis := (redis ghost_world)(Pr ghost_reset := None)\<rparr>) = users ghost_world"
    and "redis (ghost_world\<lparr>redis := (redis ghost_world)(Pr ghost_reset := None)\<rparr>)
           = (redis ghost_world)(Pr ghost_reset := None)"
    by simp_all
  ultimately show ?thesis using r e
    by (simp add: store_with_access_def ghost_reset_result) (simp add: ghost_world_def)
qed

lemma session_reset_succeeds:
  "fst (reset_password example_settings 1600 example_hasher alice_reset ''n3w'' session_world)
     = Inr ()"
  by (simp add: reset_password_def session_world_def decode_alice_reset get_user_by_email_def
      norm_alice scalar_one_or_none_def alice_def set_password_hash_def Let_def
      set_refresh_token_def)

text \<open>
  C4.  A successful password reset should delete the store entry of the
  user's refresh token, so that the old refresh token no longer passes the
  liveness check; the docstring of \<^verbatim>\<open>reset_password\<close> says that the reset
  invalidates the refresh token.  The code clears the copy in the user row
  and deletes the reset token's entry only.  Alice logs in at time 1000,
  asks for a reset at time 1500 and confirms it at time 1600: the store
  still holds her refresh token, and the rotation at time 1700 with that
  token, which finds it in the store and never reads the row, succeeds.
\<close>

theorem reset_password_keeps_refresh_entry:
  "fst (reset_password example_settings 1600 example_hasher alice_reset ''n3w'' session_world)
     = Inr ()
   \<and> is_refresh_token_active alice_refresh
        (snd (reset_password example_settings 1600 example_hasher alice_reset ''n3w'' session_world))
   \<and> fst (refresh_access_token example_settings 1700 alice_refresh
        (snd (reset_password example_settings 1600 example_hasher alice_reset ''n3w'' session_world)))
       = Inr (TokenModel (create_access_token example_settings 1700 alice_sub (Some 3600))
                alice_refresh)"
  by code_simp

theorem reset_password_keeps_refresh_entry_witness:
  "redis (snd (reset_password example_settings 1600 example_hasher alice_reset ''n3w'' session_world))
     (Rt alice_refresh) \<noteq> None
   \<and> map refresh_token
         (users (snd (reset_password example_settings 1600 example_hasher alice_reset ''n3w''
                        session_world))) = [None]
   \<and> (\<exists>tm. fst (refresh_access_token example_settings 1700 alice_refresh
                 (snd (reset_password example_settings 1600 example_hasher alice_reset ''n3w''
                         session_world))) = Inr tm)"
proof -
  have "map refresh_token
          (users (snd (reset_password example_settings 1600 example_hasher alice_reset ''n3w''
                         session_world))) = [None]"
    by code_simp
  with reset_password_keeps_refresh_entry show ?thesis
    by (simp add: is_refresh_token_active_def)
qed

text \<open>
  What a logout and a successful password reset change.  A logout changes
  nothing but the refresh-token field of the rows with the given address,
  which it clears; the store is as before.  A successful password reset
  clears the refresh-token field of the user it resolved and sets that
  user's password hash, and the one store entry it deletes is the reset
  token's own.
\<close>

lemma revocation_effects:
  "redis (logout e w) = redis w
   \<and> users (logout e w) = map (\<lambda>u. if email u = e then u\<lparr>refresh_token := None\<rparr> else u) (users w)
   \<and> (reset_password cfg now hasher tok pw w = (Inr (), w') \<longrightarrow>
        redis w' = (redis w)(Pr tok := None)
        \<and> (\<exists>u. get_user_by_email (val (the (redis w (Pr tok)))) w = Inr (Some u)
              \<and> list_all (\<lambda>x. email x = email u
                                \<longrightarrow> refresh_token x = None \<and> password_hash x = hasher pw)
                   (users w')))"
proof -
  have "redis w' = (redis w)(Pr tok := None)
        \<and> (\<exists>u. get_user_by_email (val (the (redis w (Pr tok)))) w = Inr (Some u)
              \<and> list_all (\<lambda>x. email x = email u
                                \<longrightarrow> refresh_token x = None \<and> password_hash x = hasher pw)
                   (users w'))"
    if ok: "reset_password cfg now hasher tok pw w = (Inr (), w')"
  proof -
    from reset_password_success [OF ok] obtain en u where
      en: "redis w (Pr tok) = Some en" and u: "get_user_by_email (val en) w = Inr (Some u)"
      and w': "w' = (set_refresh_token (val en) None
                     (snd (set_password_hash (email u) (hasher pw) w)))
                   \<lparr>redis := (redis w)(Pr tok := None)\<rparr>"
      by blast
    have "list_all (\<lambda>x. email x = email u
                          \<longrightarrow> refresh_token x = None \<and> password_hash x = hasher pw) (users w')"
      by (auto simp: w' set_refresh_token_def set_password_hash_def Let_def list_all_iff)
    with en u w' show ?thesis by simp
  qed
  then show ?thesis by (simp add: logout_def set_refresh_token_def)
qed

text \<open>
  C5 as stated does not hold.  A reset token is determined by the
  address, the configuration and the second it is issued in.  Alice asks for
  a reset at time 1500 and confirms it in the same second; the token's entry
  is then gone from the store.  A reset request for her address that is
  still served in that second issues the same token again and stores it,
  and the confirmation with the token at time 1600 succeeds a second time.
\<close>

theorem reset_token_confirms_twice:
  "fst (reset_password example_settings 1500 example_hasher alice_reset ''n3w'' session_world)
     = Inr ()
   \<and> redis (snd (reset_password example_settings 1500 example_hasher alice_reset ''n3w''
                   session_world)) (Pr alice_reset) = None
   \<and> fst (reset_password example_settings 1600 example_hasher alice_reset ''again''
        (snd (request_password_reset example_settings 1500 ''alice@example.com''
           (snd (reset_password example_settings 1500 example_hasher alice_reset ''n3w''
                   session_world)))))
     = Inr ()"
  by code_simp


lemma issued_at_created:
  "issued_at (create_reset_token cfg now [(''sub'', JStr e)] d) = Some now"
  by (simp add: issued_at_def create_reset_token_def jwt_encode_def)

lemma login_store:
  "redis (snd (login_by_email cfg now handler e pw w)) (Pr t) = redis w (Pr t)"
  by (auto simp: login_by_email_def Let_def save_refresh_token_def set_refresh_token_def
      split: sum.splits option.splits)

lemma rotate_store:
  "redis (snd (refresh_access_token cfg now tok w)) (Pr t) = redis w (Pr t)"
  by (auto simp: refresh_access_token_def Let_def save_refresh_token_def
      split: sum.splits option.splits jval.splits)

lemma step_reset_entry:
  assumes "step cfg now w w'" and "redis w (Pr tok) = None" and "redis w' (Pr tok) \<noteq> None"
  shows "issued_at tok = Some now"
  using assms
proof (induction rule: step.induct)
  case (request now w e)
  from request_password_reset_effect [of cfg now e w] request show ?case
    by (auto simp: issued_at_created split: if_splits)
next
  case (reset now w hasher tok' pw)
  from reset_password_effect [of cfg now hasher tok' pw w] reset show ?case
    by (auto simp: set_refresh_token_def set_password_hash_def Let_def split: if_splits)
qed (auto simp: login_store rotate_store logout_def set_refresh_token_def split: if_splits)

lemma run_after_absent:
  "run_after cfg tok w w' \<Longrightarrow> redis w (Pr tok) = None \<Longrightarrow> redis w' (Pr tok) = None"
proof (induction rule: run_after.induct)
  case (here w) then show ?case by simp
next
  case (further w w1 now w2)
  then have "redis w1 (Pr tok) = None" by simp
  with step_reset_entry [OF further(2)] further(3) show ?case by blast
qed

text \<open>
  C5, amended.  After a successful reset confirmation, every further
  confirmation with the same token, at any time and with any new password,
  fails with "Invalid or expired reset token" and changes nothing, whatever
  the service has done in between, provided none of it was done in the
  second the token was issued in.
\<close>

theorem reset_token_single_use:
  assumes "reset_password cfg now hasher tok pw w = (Inr (), w')"
      and "run_after cfg tok w' w''"
  shows "reset_password cfg now' hasher' tok pw' w''
           = (Inl (HTTPException 400 ''Invalid or expired reset token''), w'')"
proof -
  have "redis w' (Pr tok) = None"
    using reset_password_success [OF assms(1)] by auto
  with assms(2) have "redis w'' (Pr tok) = None" by (rule run_after_absent)
  then show ?thesis by (simp add: reset_password_def invalid_reset_def)
qed

theorem reset_token_single_use_witness:
  "fst (reset_password example_settings 1600 example_hasher alice_reset ''n3w'' session_world)
     = Inr ()
   \<and> issued_at alice_reset = Some 1500
   \<and> reset_password example_settings 1900 example_hasher alice_reset ''again''
        (snd (request_password_reset example_settings 1700 ''alice@example.com''
           (snd (reset_password example_settings 1600 example_hasher alice_reset ''n3w''
                   session_world))))
       = (Inl (HTTPException 400 ''Invalid or expired reset token''),
          snd (request_password_reset example_settings 1700 ''alice@example.com''
            (snd (reset_password example_settings 1600 example_hasher alice_reset ''n3w''
                    session_world))))"
proof -
  let ?r = "reset_password example_settings 1600 example_hasher alice_reset ''n3w'' session_world"
  let ?w = "snd (request_password_reset example_settings 1700 ''alice@example.com'' (snd ?r))"
  have ok: "?r = (Inr (), snd ?r)"
    using session_reset_succeeds by (cases ?r) simp
  have at: "issued_at alice_reset = Some 1500"
    by (simp add: issued_at_def alice_reset_eq)
  have "run_after example_settings alice_reset (snd ?r) (snd ?r)"
    by (rule run_after.here)
  moreover have "step example_settings 1700 (snd ?r) ?w"
    by (rule step.request)
  moreover have "issued_at alice_reset \<noteq> Some 1700"
    by (simp add: at)
  ultimately have run: "run_after example_settings alice_reset (snd ?r) ?w"
    by (rule run_after.further)
  from reset_token_single_use [OF ok run] session_reset_succeeds at
  show ?thesis by simp
qed

subsection \<open>Password verification\<close>

text \<open>
  C9 as stated does not hold: for a digest that carries no bcrypt
  identifier the exception of the password context reaches the caller.
\<close>

theorem verify_password_raises_on_unknown_digest:
  "verify_password example_handler ''s3cret'' ''not-a-bcrypt-digest'' = Inl UnknownHashError"
  by (simp add: verify_password_def pwd_context_verify_def bcrypt_identify_def
      bcrypt_ident_values_def)

text \<open>
  C9, amended.  \<^verbatim>\<open>verify_password\<close> has no exception handling of its own.  For
  a digest that starts with a bcrypt identifier it returns what the bcrypt
  handler returns, a boolean or the handler's exception; for every other
  digest it raises \<^verbatim>\<open>UnknownHashError\<close>.
\<close>

theorem verify_password_passes_through:
  "(bcrypt_identify h \<longrightarrow> verify_password handler p h = handler p h)
   \<and> (\<not> bcrypt_identify h \<longrightarrow> verify_password handler p h = Inl UnknownHashError)"
  by (simp add: verify_password_def pwd_context_verify_def)

theorem verify_password_passes_through_witness:
  "bcrypt_identify ''$2b$12$old''
   \<and> verify_password example_handler ''s3cret'' ''$2b$12$old'' = Inr True
   \<and> verify_password example_handler ''wrong'' ''$2b$12$old'' = Inr False
   \<and> \<not> bcrypt_identify ''plain''
   \<and> verify_password example_handler ''s3cret'' ''plain'' = Inl UnknownHashError"
proof -
  have a: "bcrypt_identify ''$2b$12$old''"
    by (simp add: bcrypt_identify_def bcrypt_ident_values_def)
  have b: "\<not> bcrypt_identify ''plain''"
    by (simp add: bcrypt_identify_def bcrypt_ident_values_def)
  from verify_password_passes_through [of "''$2b$12$old''" example_handler "''s3cret''"]
       verify_password_passes_through [of "''$2b$12$old''" example_handler "''wrong''"]
       verify_password_passes_through [of "''plain''" example_handler "''s3cret''"] a b
  show ?thesis by (simp add: example_handler_def)
qed

subsection \<open>Removing a contact\<close>

lemma get_contact_by_id_total:
  assumes "distinct (map cid (contacts w))" and "in_int4 contact_id"
  shows "\<exists>r. get_contact_by_id contact_id usr w = Inr r"
  using filter_key_at_most_one [OF assms(1), of contact_id "\<lambda>c. user_id c = uid usr"] assms(2)
  by (auto simp: get_contact_by_id_def scalar_one_or_none_def)

lemma get_contact_by_id_Some:
  assumes "get_contact_by_id contact_id usr w = Inr (Some c)"
  shows "c \<in> set (contacts w) \<and> cid c = contact_id \<and> user_id c = uid usr"
proof -
  have "filter (\<lambda>c. cid c = contact_id \<and> user_id c = uid usr) (contacts w) = [c]"
    using assms by (simp add: get_contact_by_id_def scalar_one_or_none_Some split: if_splits)
  then have "c \<in> set (filter (\<lambda>c. cid c = contact_id \<and> user_id c = uid usr) (contacts w))"
    by simp
  then show ?thesis by simp
qed

text \<open>
  C10 as stated does not hold for every contact id: the route accepts
  every id from 1 upwards, and for the id 2147483648, which is outside the
  range of the column, the call raises the database's error instead of
  returning \<^verbatim>\<open>True\<close>.
\<close>

theorem remove_contact_raises_out_of_range:
  "ContactService_remove_contact (ContactRepository example_ilike june_first) 2147483648 alice
     contacts_world = (Inl DBAPIError, contacts_world)"
  by (simp add: ContactService_remove_contact_def ContactRepository_def
      ContactRepository_remove_contact_def get_contact_by_id_def in_int4_def)

text \<open>
  C10, amended.  The contact table has a primary key, so no two rows share an
  id.  Then, for every contact id in the range of the column and every user,
  removing through the service returns \<^verbatim>\<open>True\<close>; every row of another user is
  still in the table afterwards; and when the user owns no contact with that
  id the world is unchanged.  For a contact id outside the range of the
  column the call raises \<^verbatim>\<open>DBAPIError\<close> and the world is unchanged.
\<close>

theorem remove_contact_returns_true:
  assumes "distinct (map cid (contacts w))"
  shows "(in_int4 contact_id \<longrightarrow>
            fst (ContactService_remove_contact (ContactRepository ilike today) contact_id usr w)
              = Inr True
            \<and> list_all (\<lambda>c. user_id c \<noteq> uid usr \<longrightarrow>
                  c \<in> set (contacts (snd (ContactService_remove_contact
                                             (ContactRepository ilike today) contact_id usr w))))
                (contacts w)
            \<and> (list_all (\<lambda>c. \<not> (cid c = contact_id \<and> user_id c = uid usr)) (contacts w) \<longrightarrow>
                  snd (ContactService_remove_contact (ContactRepository ilike today) contact_id usr w)
                    = w))
         \<and> (\<not> in_int4 contact_id \<longrightarrow>
              ContactService_remove_contact (ContactRepository ilike today) contact_id usr w
                = (Inl DBAPIError, w))"
proof (cases "in_int4 contact_id")
  case False
  then show ?thesis
    by (simp add: ContactService_remove_contact_def ContactRepository_def
        ContactRepository_remove_contact_def get_contact_by_id_def)
next
  case True
  obtain r where r: "get_contact_by_id contact_id usr w = Inr r"
    using get_contact_by_id_total [OF assms True] by blast
  show ?thesis
  proof (cases r)
    case None
    with r True show ?thesis
      by (simp add: ContactService_remove_contact_def ContactRepository_def
          ContactRepository_remove_contact_def list_all_iff)
  next
    case (Some c)
    from get_contact_by_id_Some r Some
    have c: "c \<in> set (contacts w)" "cid c = contact_id" "user_id c = uid usr" by auto
    have inj: "inj_on cid (set (contacts w))"
      using assms by (simp add: distinct_map)
    have others: "x \<in> set (contacts w) \<Longrightarrow> user_id x \<noteq> uid usr \<Longrightarrow> cid x \<noteq> cid c" for x
      using inj c by (auto dest: inj_onD)
    have own: "\<not> list_all (\<lambda>c. \<not> (cid c = contact_id \<and> user_id c = uid usr)) (contacts w)"
      using c by (auto simp: list_all_iff)
    from r Some others own True show ?thesis
      by (auto simp: ContactService_remove_contact_def ContactRepository_def
          ContactRepository_remove_contact_def list_all_iff)
  qed
qed

theorem remove_contact_returns_true_witness:
  "distinct (map cid (contacts contacts_world))
   \<and> fst (ContactService_remove_contact (ContactRepository example_ilike june_first) 8 alice
           contacts_world) = Inr True
   \<and> snd (ContactService_remove_contact (ContactRepository example_ilike june_first) 8 alice
           contacts_world) = contacts_world
   \<and> fst (ContactService_remove_contact (ContactRepository example_ilike june_first) 7 alice
           contacts_world) = Inr True
   \<and> carol \<in> set (contacts (snd (ContactService_remove_contact
                                   (ContactRepository example_ilike june_first) 7 alice
                                   contacts_world)))
   \<and> ContactService_remove_contact (ContactRepository example_ilike june_first) (- 2147483649)
         alice contacts_world = (Inl DBAPIError, contacts_world)"
proof -
  have d: "distinct (map cid (contacts contacts_world))"
    by (simp add: contacts_world_def bob_def carol_def)
  from remove_contact_returns_true [OF d, of 8 example_ilike june_first alice]
       remove_contact_returns_true [OF d, of 7 example_ilike june_first alice]
       remove_contact_returns_true [OF d, of "- 2147483649" example_ilike june_first alice] d
  show ?thesis
    by (simp add: contacts_world_def bob_def carol_def alice_def in_int4_def)
qed

subsection \<open>Upcoming birthdays\<close>

text \<open>
  The two examples of the specification: from 28 December with seven days a
  birthday on 2 January is returned and one on 20 December is not; from
  1 June with seven days a birthday on 5 June is returned and one on 9 June
  is not.
\<close>

lemma upcoming_birthdays_examples:
  "map cid (projr (fst (ContactRepository_upcoming_birthdays \<lparr>year = 2025, month = 12, day = 28\<rparr> 7
      alice
      (contacts_world\<lparr>contacts :=
         [bob\<lparr>cid := 1, birthday := Some \<lparr>year = 1990, month = 1, day = 2\<rparr>\<rparr>,
          bob\<lparr>cid := 2, birthday := Some \<lparr>year = 1991, month = 12, day = 20\<rparr>\<rparr>,
          bob\<lparr>cid := 3, birthday := None\<rparr>,
          bob\<lparr>cid := 4, birthday := Some \<lparr>year = 2001, month = 12, day = 30\<rparr>\<rparr>]\<rparr>)))) = [1, 4]
   \<and> map cid (projr (fst (ContactRepository_upcoming_birthdays june_first 7 alice
      (contacts_world\<lparr>contacts :=
         [bob\<lparr>cid := 1, birthday := Some \<lparr>year = 1990, month = 6, day = 9\<rparr>\<rparr>,
          bob\<lparr>cid := 2, birthday := Some \<lparr>year = 1991, month = 6, day = 8\<rparr>\<rparr>,
          bob\<lparr>cid := 3, birthday := Some \<lparr>year = 1992, month = 6, day = 5\<rparr>\<rparr>,
          bob\<lparr>cid := 4, birthday := Some \<lparr>year = 1993, month = 6, day = 1\<rparr>\<rparr>]\<rparr>)))) = [4, 3, 2]"
  by code_simp

text \<open>
  C7.  For every number of days from 1 to 365 the contacts with a birthday in
  the window from today to today plus that number of days should be
  returned, with the disjunction of the two comparisons when the window
  runs past 31 December.  On 1 June 2025 a window of 365 days ends on 1 June
  2026 and so runs past 31 December, but both keys are \<^verbatim>\<open>0601\<close> and the code
  takes the range comparison: Bob, whose birthday is 15 July, is returned
  for 364 days and not for 365.
\<close>

theorem upcoming_birthdays_full_year_window:
  "date_plus june_first 365 = Inr \<lparr>year = 2026, month = 6, day = 1\<rparr>
   \<and> fst (ContactRepository_upcoming_birthdays june_first 364 alice contacts_world) = Inr [bob]
   \<and> fst (ContactRepository_upcoming_birthdays june_first 365 alice contacts_world) = Inr []"
  by code_simp

subsection \<open>The read-through cache\<close>

text \<open>
  C8.  A search or birthday request computes its key and looks it up in the
  store.  On a hit, where the store holds a non-empty string under the key
  and it deserialises to a document, the service returns that document and
  the world is unchanged, whatever repository the service holds: the
  repository is not invoked.  On a miss, where the store has no entry under
  the key, the repository is invoked, and its rows are returned and stored
  under the key, serialised, with a lifetime of 60 seconds for a search and
  600 seconds for birthdays.
\<close>

theorem read_through_cache:
  "(redis w (Key (make_search_key (uid usr) fname lname em skip limit)) = Some en
      \<and> val en \<noteq> [] \<and> json_loads js (val en) = Inr (Some doc) \<longrightarrow>
      ContactService_search_contacts js repo fname lname em skip limit usr w
        = (Inr (Cached doc), w))
   \<and> (redis w (Key (make_search_key (uid usr) fname lname em skip limit)) = None
      \<and> repo_search_contacts repo fname lname em skip limit usr w = (Inr rows, w1) \<longrightarrow>
      ContactService_search_contacts js repo fname lname em skip limit usr w
        = (Inr (Rows rows),
           w1\<lparr>redis := (redis w1)(Key (make_search_key (uid usr) fname lname em skip limit)
                \<mapsto> \<lparr>val = json_dumps js (jsonable_encoder js rows), ex = 60\<rparr>)\<rparr>))
   \<and> (redis w (Key (make_birthdays_key (uid usr) days)) = Some en
      \<and> val en \<noteq> [] \<and> json_loads js (val en) = Inr (Some doc) \<longrightarrow>
      ContactService_upcoming_birthdays js repo days usr w = (Inr (Cached doc), w))
   \<and> (redis w (Key (make_birthdays_key (uid usr) days)) = None
      \<and> repo_upcoming_birthdays repo days usr w = (Inr rows, w1) \<longrightarrow>
      ContactService_upcoming_birthdays js repo days usr w
        = (Inr (Rows rows),
           w1\<lparr>redis := (redis w1)(Key (make_birthdays_key (uid usr) days)
                \<mapsto> \<lparr>val = json_dumps js (jsonable_encoder js rows), ex = 600\<rparr>)\<rparr>))"
  by (simp add: ContactService_search_contacts_def ContactService_upcoming_birthdays_def
      get_search_contacts_def get_birthdays_def set_search_contacts_def set_birthdays_def
      SEARCH_TTL_def BIRTHDAYS_TTL_def Let_def)

lemma uid_alice: "uid alice = 1"
  by (simp add: alice_def)

lemma search_contacts_frame:
  "snd (ContactRepository_search_contacts ilike fname lname em skip limit usr w) = w"
  by (simp add: ContactRepository_search_contacts_def Let_def)

lemma upcoming_birthdays_frame:
  "snd (ContactRepository_upcoming_birthdays today days usr w) = w"
  by (simp add: ContactRepository_upcoming_birthdays_def Let_def split: sum.splits)

lemma example_search_rows:
  "fst (ContactRepository_search_contacts example_ilike (Some ''bob'') None None 0 10 alice
          contacts_world) = Inr [bob]"
  by code_simp

lemma example_birthday_rows:
  "fst (ContactRepository_upcoming_birthdays june_first 60 alice contacts_world) = Inr [bob]"
  by code_simp

theorem read_through_cache_witness:
  "ContactService_search_contacts example_json (ContactRepository example_ilike june_first)
       (Some ''bob'') None None 0 10 alice search_hit_world
     = (Inr (Cached ''Stale;''), search_hit_world)
   \<and> ContactService_search_contacts example_json (ContactRepository example_ilike june_first)
       (Some ''bob'') None None 0 10 alice contacts_world
     = (Inr (Rows [bob]),
        contacts_world\<lparr>redis :=
          [Key (make_search_key 1 (Some ''bob'') None None 0 10) \<mapsto> \<lparr>val = ''Bob;'', ex = 60\<rparr>]\<rparr>)
   \<and> ContactService_upcoming_birthdays example_json (ContactRepository example_ilike june_first)
       60 alice birthdays_hit_world
     = (Inr (Cached ''Old;''), birthdays_hit_world)
   \<and> ContactService_upcoming_birthdays example_json (ContactRepository example_ilike june_first)
       60 alice contacts_world
     = (Inr (Rows [bob]),
        contacts_world\<lparr>redis :=
          [Key (make_birthdays_key 1 60) \<mapsto> \<lparr>val = ''Bob;'', ex = 600\<rparr>]\<rparr>)"
proof -
  let ?repo = "ContactRepository example_ilike june_first"
  let ?sk = "make_search_key (uid alice) (Some ''bob'') None None 0 10"
  let ?bk = "make_birthdays_key (uid alice) 60"
  have sh: "redis search_hit_world (Key ?sk) = Some \<lparr>val = ''Stale;'', ex = 60\<rparr>"
    by (simp add: search_hit_world_def uid_alice)
  have bh: "redis birthdays_hit_world (Key ?bk) = Some \<lparr>val = ''Old;'', ex = 600\<rparr>"
    by (simp add: birthdays_hit_world_def uid_alice)
  have sm: "redis contacts_world (Key ?sk) = None" and bm: "redis contacts_world (Key ?bk) = None"
    by (simp_all add: contacts_world_def)
  have ld: "json_loads example_json ''Stale;'' = Inr (Some ''Stale;'')"
           "json_loads example_json ''Old;'' = Inr (Some ''Old;'')"
    by (simp_all add: example_json_def)
  have enc: "json_dumps example_json (jsonable_encoder example_json [bob]) = ''Bob;''"
    by (simp add: example_json_def bob_def)
  have sr: "repo_search_contacts ?repo (Some ''bob'') None None 0 10 alice contacts_world
              = (Inr [bob], contacts_world)"
    using example_search_rows search_contacts_frame
    by (simp add: ContactRepository_def prod_eq_iff)
  have br: "repo_upcoming_birthdays ?repo 60 alice contacts_world = (Inr [bob], contacts_world)"
    using example_birthday_rows upcoming_birthdays_frame
    by (simp add: ContactRepository_def prod_eq_iff)
  have a: "ContactService_search_contacts example_json ?repo (Some ''bob'') None None 0 10 alice
             search_hit_world = (Inr (Cached ''Stale;''), search_hit_world)"
    using read_through_cache [where w = search_hit_world and usr = alice
        and fname = "Some ''bob''" and lname = None and em = None and skip = 0 and limit = 10
        and en = "\<lparr>val = ''Stale;'', ex = 60\<rparr>" and js = example_json and doc = "''Stale;''"
        and repo = ?repo] sh ld
    by simp
  have b: "ContactService_search_contacts example_json ?repo (Some ''bob'') None None 0 10 alice
             contacts_world
           = (Inr (Rows [bob]),
              contacts_world\<lparr>redis := (redis contacts_world)(Key ?sk
                \<mapsto> \<lparr>val = json_dumps example_json (jsonable_encoder example_json [bob]),
                       ex = 60\<rparr>)\<rparr>)"
    using read_through_cache [where w = contacts_world and usr = alice
        and fname = "Some ''bob''" and lname = None and em = None and skip = 0 and limit = 10
        and js = example_json and repo = ?repo and rows = "[bob]" and ?w1.0 = contacts_world]
      sm sr
    by simp
  have c: "ContactService_upcoming_birthdays example_json ?repo 60 alice birthdays_hit_world
           = (Inr (Cached ''Old;''), birthdays_hit_world)"
    using read_through_cache [where w = birthdays_hit_world and usr = alice and days = 60
        and en = "\<lparr>val = ''Old;'', ex = 600\<rparr>" and js = example_json and doc = "''Old;''"
        and repo = ?repo] bh ld
    by simp
  have d: "ContactService_upcoming_birthdays example_json ?repo 60 alice contacts_world
           = (Inr (Rows [bob]),
              contacts_world\<lparr>redis := (redis contacts_world)(Key ?bk
                \<mapsto> \<lparr>val = json_dumps example_json (jsonable_encoder example_json [bob]),
                       ex = 600\<rparr>)\<rparr>)"
    using read_through_cache [where w = contacts_world and usr = alice and days = 60
        and js = example_json and repo = ?repo and rows = "[bob]" and ?w1.0 = contacts_world]
      bm br
    by simp
  from a b c d show ?thesis
    by (simp add: enc uid_alice contacts_world_def)
qed

subsection \<open>Cache keys\<close>




















end
